theory Spec2Isabelle
  imports Complex_Main
begin

section \<open>Conventions of the embedding\<close>

text \<open>
  The TypeScript sources \<^verbatim>\<open>lib/tax/entity-classification.ts\<close> and
  \<^verbatim>\<open>lib/tax/vat-computation.ts\<close> are embedded function by function.

  \<^item> A JavaScript \<^verbatim>\<open>number\<close> that holds money or a rate is a \<^typ>\<open>real\<close>: the
    embedding covers finite values under exact arithmetic. Comparisons, \<open>max\<close>, \<open>abs\<close>
    and the order of the additions are those of the source. Where a property depends
    on the rounding of the arithmetic (the cumulative aggregation and the accounting
    identity), the functions concerned are embedded a second time with binary64
    rounding written out.
  \<^item> A string is a \<^typ>\<open>string\<close>; a character outside ASCII is written as its UTF-8
    bytes.
  \<^item> An optional field is an \<open>option\<close>.
  \<^item> A \<^verbatim>\<open>throw\<close> is the left summand of a sum type.
  \<^item> What the sources take from the JavaScript runtime (parsing a date string, the
    calendar year of a time value in the local time zone, locale formatting) is not
    part of the repository. It is a parameter of the embedding, the record \<open>Host\<close>,
    and every theorem holds for every host.
\<close>

record Host =
  Date_parse :: "string \<Rightarrow> int option"
  YearFromTime :: "int \<Rightarrow> int"
  Number_toLocaleString :: "real \<Rightarrow> string"
  Date_toLocaleDateString :: "int option \<Rightarrow> string"

text \<open>
  A \<^verbatim>\<open>Date\<close> object is its time value in milliseconds; \<open>None\<close> is the time value
  \<^verbatim>\<open>NaN\<close> of an \<^verbatim>\<open>Invalid Date\<close>.
\<close>

datatype Date = Date (getTime: "int option")

definition new_Date :: "Host \<Rightarrow> string \<Rightarrow> Date" where
  "new_Date h s = Date (Date_parse h s)"

text \<open>\<^verbatim>\<open>getFullYear()\<close> is \<^verbatim>\<open>NaN\<close> (here \<open>None\<close>) on an invalid date.\<close>

definition getFullYear :: "Host \<Rightarrow> Date \<Rightarrow> int option" where
  "getFullYear h d = map_option (YearFromTime h) (getTime d)"

text \<open>
  Relational comparison of two dates compares their time values; a comparison with
  \<^verbatim>\<open>NaN\<close> is false.
\<close>

definition date_ge :: "Date \<Rightarrow> Date \<Rightarrow> bool" where
  "date_ge a b = (case (getTime a, getTime b) of (Some x, Some y) \<Rightarrow> y \<le> x | _ \<Rightarrow> False)"

definition date_le :: "Date \<Rightarrow> Date \<Rightarrow> bool" where
  "date_le a b = (case (getTime a, getTime b) of (Some x, Some y) \<Rightarrow> x \<le> y | _ \<Rightarrow> False)"

text \<open>The non-ASCII characters of the message texts, as UTF-8.\<close>

definition naira :: string where
  "naira = [CHR 0xE2, CHR 0x82, CHR 0xA6]"

definition sym_le :: string where
  "sym_le = [CHR 0xE2, CHR 0x89, CHR 0xA4]"

definition sym_cross_mark :: string where
  "sym_cross_mark = [CHR 0xE2, CHR 0x9D, CHR 0x8C]"

definition sym_check :: string where
  "sym_check = [CHR 0xE2, CHR 0x9C, CHR 0x93]"

definition sym_ballot_x :: string where
  "sym_ballot_x = [CHR 0xE2, CHR 0x9C, CHR 0x97]"

definition sym_check_button :: string where
  "sym_check_button = [CHR 0xE2, CHR 0x9C, CHR 0x85]"

definition sym_bullet :: string where
  "sym_bullet = [CHR 0xE2, CHR 0x80, CHR 0xA2]"

definition sym_times :: string where
  "sym_times = [CHR 0xC3, CHR 0x97]"

text \<open>\<^verbatim>\<open>formatCurrency\<close> (both modules define it the same way).\<close>

definition formatCurrency :: "Host \<Rightarrow> real \<Rightarrow> string" where
  "formatCurrency h amount = Number_toLocaleString h amount"

section \<open>Entity classification\<close>

record ClassificationInput =
  turnover :: real
  fixedAssets :: real
  isProfessionalServices :: bool
  industryCode :: "string option"

datatype Classification = SMALL | STANDARD

record Thresholds =
  turnoverThreshold :: real
  assetsThreshold :: real
  turnoverMet :: bool
  assetsMet :: bool

record TaxImplications =
  citRate :: real
  devLevyRate :: real
  vatApplicable :: bool

record ClassificationResult =
  classification :: Classification
  citExempt :: bool
  devLevyApplicable :: bool
  reasoning :: "string list"
  thresholds :: Thresholds
  taxImplications :: TaxImplications

datatype Error = Error string

datatype FailureReason = professional_services | turnover_reason | assets_reason | both_thresholds

text \<open>\<^verbatim>\<open>CLASSIFICATION_THRESHOLDS\<close>\<close>

definition TURNOVER_THRESHOLD :: real where
  "TURNOVER_THRESHOLD = 50000000"

definition ASSETS_THRESHOLD :: real where
  "ASSETS_THRESHOLD = 250000000"

text \<open>\<^verbatim>\<open>TAX_RATES\<close>\<close>

definition CIT_2025 :: real where
  "CIT_2025 = 0.275"

definition CIT_2026_ONWARDS :: real where
  "CIT_2026_ONWARDS = 0.25"

definition DEV_LEVY_2025_2026 :: real where
  "DEV_LEVY_2025_2026 = 0.04"

definition DEV_LEVY_2027_2029 :: real where
  "DEV_LEVY_2027_2029 = 0.03"

definition DEV_LEVY_2030_ONWARDS :: real where
  "DEV_LEVY_2030_ONWARDS = 0.02"

text \<open>
  \<^verbatim>\<open>buildStandardResult(input, reasoning, failureReason)\<close>: appends six lines to the
  reasoning and returns the STANDARD result. The failure reason is not read.
\<close>

definition buildStandardResult ::
  "ClassificationInput \<Rightarrow> string list \<Rightarrow> FailureReason \<Rightarrow> ClassificationResult" where
  "buildStandardResult input reasoning0 failureReason =
    (let reasoning1 = reasoning0 @
           ['''',
            sym_cross_mark @ '' CLASSIFICATION: STANDARD COMPANY'',
            ''Tax implications:'',
            ''  '' @ sym_bullet @ '' Subject to Company Income Tax (CIT) at 25% (from 2026)'',
            ''  '' @ sym_bullet @ '' Subject to Development Levy at 4% (2025-2026)'',
            ''  '' @ sym_bullet @ '' Subject to VAT at applicable rates''];
         turnoverMet' = (turnover input \<le> TURNOVER_THRESHOLD);
         assetsMet' = (fixedAssets input \<le> ASSETS_THRESHOLD)
     in \<lparr> classification = STANDARD,
          citExempt = False,
          devLevyApplicable = True,
          reasoning = reasoning1,
          thresholds = \<lparr> turnoverThreshold = TURNOVER_THRESHOLD,
                         assetsThreshold = ASSETS_THRESHOLD,
                         turnoverMet = turnoverMet',
                         assetsMet = assetsMet' \<rparr>,
          taxImplications = \<lparr> citRate = CIT_2026_ONWARDS,
                              devLevyRate = DEV_LEVY_2025_2026,
                              vatApplicable = True \<rparr> \<rparr>)"

text \<open>
  \<^verbatim>\<open>classifyEntity(input)\<close>. The reasoning list is built by appending, in the order
  of the \<^verbatim>\<open>push\<close> calls.
\<close>

definition classifyEntity :: "Host \<Rightarrow> ClassificationInput \<Rightarrow> Error + ClassificationResult" where
  "classifyEntity h input =
    (if turnover input < 0 \<or> fixedAssets input < 0
     then Inl (Error ''Turnover and fixed assets must be non-negative'')
     else if isProfessionalServices input
     then Inr (buildStandardResult input
                 [sym_cross_mark @ '' Professional services exclusion'',
                  ''Professional services businesses cannot qualify as SMALL companies per Section 56'']
                 professional_services)
     else
       (let turnoverMet' = (turnover input \<le> TURNOVER_THRESHOLD);
            reasoning1 =
              (if turnoverMet'
               then [sym_check @ '' Turnover test: '' @ naira @ formatCurrency h (turnover input)
                       @ '' '' @ sym_le @ '' '' @ naira @ formatCurrency h TURNOVER_THRESHOLD]
               else [sym_ballot_x @ '' Turnover test: '' @ naira @ formatCurrency h (turnover input)
                       @ '' > '' @ naira @ formatCurrency h TURNOVER_THRESHOLD]);
            assetsMet' = (fixedAssets input \<le> ASSETS_THRESHOLD);
            reasoning2 = reasoning1 @
              (if assetsMet'
               then [sym_check @ '' Assets test: '' @ naira @ formatCurrency h (fixedAssets input)
                       @ '' '' @ sym_le @ '' '' @ naira @ formatCurrency h ASSETS_THRESHOLD]
               else [sym_ballot_x @ '' Assets test: '' @ naira @ formatCurrency h (fixedAssets input)
                       @ '' > '' @ naira @ formatCurrency h ASSETS_THRESHOLD]);
            isSmall = (turnoverMet' \<and> assetsMet')
        in if isSmall
           then Inr \<lparr> classification = SMALL,
                      citExempt = True,
                      devLevyApplicable = False,
                      reasoning = reasoning2 @
                        ['''',
                         sym_check_button @ '' CLASSIFICATION: SMALL COMPANY'',
                         ''Tax implications:'',
                         ''  '' @ sym_bullet @ '' EXEMPT from Company Income Tax (CIT)'',
                         ''  '' @ sym_bullet @ '' NOT subject to Development Levy'',
                         ''  '' @ sym_bullet @ '' Subject to VAT at applicable rates''],
                      thresholds = \<lparr> turnoverThreshold = TURNOVER_THRESHOLD,
                                     assetsThreshold = ASSETS_THRESHOLD,
                                     turnoverMet = turnoverMet',
                                     assetsMet = assetsMet' \<rparr>,
                      taxImplications = \<lparr> citRate = 0,
                                          devLevyRate = 0,
                                          vatApplicable = True \<rparr> \<rparr>
           else
             (let failureReason =
                    (if \<not> turnoverMet' \<and> \<not> assetsMet' then both_thresholds
                     else if \<not> turnoverMet' then turnover_reason
                     else assets_reason)
              in Inr (buildStandardResult input reasoning2 failureReason))))"

text \<open>
  \<^verbatim>\<open>getCITRate(year)\<close> and \<^verbatim>\<open>getDevelopmentLevyRate(year)\<close>. The default argument
  \<^verbatim>\<open>getCurrentTaxYear()\<close> reads the clock; here the year is always given.
\<close>

definition getCITRate :: "int \<Rightarrow> real" where
  "getCITRate year = (if year = 2025 then CIT_2025 else CIT_2026_ONWARDS)"

definition getDevelopmentLevyRate :: "int \<Rightarrow> real" where
  "getDevelopmentLevyRate year =
    (if year \<ge> 2025 \<and> year \<le> 2026 then DEV_LEVY_2025_2026
     else if year \<ge> 2027 \<and> year \<le> 2029 then DEV_LEVY_2027_2029
     else DEV_LEVY_2030_ONWARDS)"

section \<open>VAT computation\<close>

record VATLineItem =
  description :: string
  quantity :: real
  unitPrice :: real
  isBasicItem :: "bool option"

text \<open>
  \<^verbatim>\<open>VATLineItem & { lineTotal; vat; total }\<close>, the element type of the per-line
  breakdown.
\<close>

record CalculatedLineItem = VATLineItem +
  lineTotal :: real
  vat :: real
  total' :: real

record VATInvoice =
  invoice_id :: "string option"
  invoiceNumber :: string
  invoiceDate :: string
  customerName :: string
  customerTIN :: "string option"
  grossAmount :: real
  vatRate :: real
  vatAmount :: real
  totalAmount :: real
  invoiceType :: string
  invoice_isBasicItem :: "bool option"
  lineItems :: "VATLineItem list option"

record VATInvoiceCalculation =
  calc_invoiceNumber :: string
  calc_invoiceDate :: string
  subtotal :: real
  calc_vatRate :: real
  calc_vatAmount :: real
  calc_totalAmount :: real
  calc_lineItems :: "CalculatedLineItem list"

record InvoiceCount =
  count_output :: nat
  count_input :: nat
  count_total :: nat

record VATPosition =
  period :: string
  periodStart :: string
  periodEnd :: string
  outputVAT :: real
  inputVAT :: real
  netVATPayable :: real
  excessCredit :: real
  invoiceCount :: InvoiceCount
  summary :: "string list"

text \<open>\<^verbatim>\<open>VAT_RATES\<close> (the entry \<^verbatim>\<open>EXEMPT: null\<close> is never read).\<close>

definition BASIC_ITEMS :: real where
  "BASIC_ITEMS = 0"

definition STANDARD_2025 :: real where
  "STANDARD_2025 = 0.1"

definition STANDARD_2026_2029 :: real where
  "STANDARD_2026_2029 = 0.125"

definition STANDARD_2030 :: real where
  "STANDARD_2030 = 0.15"

text \<open>
  \<^verbatim>\<open>getVATRate(date)\<close>. On an invalid date the year is \<^verbatim>\<open>NaN\<close>, both tests are
  false and the last branch is taken.
\<close>

definition getVATRate :: "Host \<Rightarrow> Date \<Rightarrow> real" where
  "getVATRate h date =
    (let year = getFullYear h date
     in if year = Some 2025 then STANDARD_2025
        else if (case year of Some y \<Rightarrow> y \<ge> 2026 \<and> y \<le> 2029 | None \<Rightarrow> False)
        then STANDARD_2026_2029
        else STANDARD_2030)"

text \<open>
  The callback of \<^verbatim>\<open>invoice.lineItems.map\<close> in \<^verbatim>\<open>calculateInvoiceVAT\<close>. The rate
  test \<^verbatim>\<open>item.isBasicItem ? ... : ...\<close> takes the first branch only for \<^verbatim>\<open>true\<close>;
  \<^verbatim>\<open>false\<close> and an absent field are both falsy.
\<close>

definition applicableRate :: "real \<Rightarrow> VATLineItem \<Rightarrow> real" where
  "applicableRate standardRate item =
    (if isBasicItem item = Some True then BASIC_ITEMS else standardRate)"

definition calculateLineItem :: "real \<Rightarrow> VATLineItem \<Rightarrow> CalculatedLineItem" where
  "calculateLineItem standardRate item =
    (let lineTotal' = quantity item * unitPrice item;
         lineVAT = lineTotal' * applicableRate standardRate item
     in \<lparr> description = description item,
          quantity = quantity item,
          unitPrice = unitPrice item,
          isBasicItem = isBasicItem item,
          lineTotal = lineTotal',
          vat = lineVAT,
          total' = lineTotal' + lineVAT \<rparr>)"

text \<open>
  The \<^verbatim>\<open>map\<close> runs the callback on the items from left to right; the callback also
  adds to the two running totals \<^verbatim>\<open>subtotal\<close> and \<^verbatim>\<open>totalVAT\<close>, which are threaded
  through here.
\<close>

fun mapLineItems ::
  "real \<Rightarrow> VATLineItem list \<Rightarrow> real \<Rightarrow> real \<Rightarrow> CalculatedLineItem list \<times> real \<times> real" where
  "mapLineItems standardRate [] subtotal0 totalVAT0 = ([], subtotal0, totalVAT0)"
| "mapLineItems standardRate (item # items) subtotal0 totalVAT0 =
    (let c = calculateLineItem standardRate item;
         (cs, subtotal1, totalVAT1) =
            mapLineItems standardRate items (subtotal0 + lineTotal c) (totalVAT0 + vat c)
     in (c # cs, subtotal1, totalVAT1))"

text \<open>
  \<^verbatim>\<open>calculateInvoiceVAT(invoice)\<close>; the four arguments are the four fields of the
  argument object (\<^verbatim>\<open>customerName\<close> is not read).
\<close>

definition calculateInvoiceVAT ::
  "Host \<Rightarrow> string \<Rightarrow> string \<Rightarrow> string \<Rightarrow> VATLineItem list \<Rightarrow> VATInvoiceCalculation" where
  "calculateInvoiceVAT h invoiceNumber' invoiceDate' customerName' lineItems' =
    (let invoiceDate'' = new_Date h invoiceDate';
         standardRate = getVATRate h invoiceDate'';
         (calculatedLineItems, subtotal1, totalVAT1) =
            mapLineItems standardRate lineItems' 0 0
     in \<lparr> calc_invoiceNumber = invoiceNumber',
          calc_invoiceDate = invoiceDate',
          subtotal = subtotal1,
          calc_vatRate = standardRate,
          calc_vatAmount = totalVAT1,
          calc_totalAmount = subtotal1 + totalVAT1,
          calc_lineItems = calculatedLineItems \<rparr>)"

text \<open>\<^verbatim>\<open>formatDate(dateString)\<close>\<close>

definition formatDate :: "Host \<Rightarrow> string \<Rightarrow> string" where
  "formatDate h dateString = Date_toLocaleDateString h (getTime (new_Date h dateString))"

text \<open>The decimal text of an array length, as a template literal prints it.\<close>

fun string_of_nat :: "nat \<Rightarrow> string" where
  "string_of_nat n =
    (if n < 10 then [char_of (48 + n)]
     else string_of_nat (n div 10) @ [char_of (48 + n mod 10)])"

text \<open>The filter predicate of \<^verbatim>\<open>computeVATPosition\<close>.\<close>

definition inPeriod :: "Host \<Rightarrow> string \<Rightarrow> string \<Rightarrow> VATInvoice \<Rightarrow> bool" where
  "inPeriod h periodStart' periodEnd' invoice =
    (let invDate = new_Date h (invoiceDate invoice);
         start = new_Date h periodStart';
         end' = new_Date h periodEnd'
     in date_ge invDate start \<and> date_le invDate end')"

text \<open>
  \<^verbatim>\<open>computeVATPosition(invoices, periodStart, periodEnd)\<close>. \<^verbatim>\<open>reduce\<close> is a left
  fold from 0; \<^verbatim>\<open>Number(inv.vatAmount)\<close> is the identity on a number.
\<close>

definition computeVATPosition :: "Host \<Rightarrow> VATInvoice list \<Rightarrow> string \<Rightarrow> string \<Rightarrow> VATPosition" where
  "computeVATPosition h invoices periodStart' periodEnd' =
    (let periodInvoices = filter (inPeriod h periodStart' periodEnd') invoices;
         outputInvoices = filter (\<lambda>invoice. invoiceType invoice = ''OUTPUT'') periodInvoices;
         outputVAT' = foldl (\<lambda>sum invoice. sum + vatAmount invoice) 0 outputInvoices;
         inputInvoices = filter (\<lambda>invoice. invoiceType invoice = ''INPUT'') periodInvoices;
         inputVAT' = foldl (\<lambda>sum invoice. sum + vatAmount invoice) 0 inputInvoices;
         netVATPayable' = max 0 (outputVAT' - inputVAT');
         excessCredit' = max 0 (inputVAT' - outputVAT');
         summary1 =
           [''VAT Position for '' @ formatDate h periodStart' @ '' to '' @ formatDate h periodEnd',
            '''',
            ''Output VAT (Sales): '' @ naira @ formatCurrency h outputVAT',
            ''  From '' @ string_of_nat (length outputInvoices) @ '' sales invoices'',
            '''',
            ''Input VAT (Purchases): '' @ naira @ formatCurrency h inputVAT',
            ''  From '' @ string_of_nat (length inputInvoices) @ '' purchase invoices'',
            ''''];
         summary2 = summary1 @
           (if netVATPayable' > 0
            then [''Net VAT Payable: '' @ naira @ formatCurrency h netVATPayable',
                  ''Action: Remit to FIRS by 21st of following month'']
            else if excessCredit' > 0
            then [''Excess Credit: '' @ naira @ formatCurrency h excessCredit',
                  ''Action: Carry forward to next period'']
            else [''Net VAT Position: '' @ naira @ ''0.00 (balanced)''])
     in \<lparr> period = formatDate h periodStart' @ '' to '' @ formatDate h periodEnd',
          periodStart = periodStart',
          periodEnd = periodEnd',
          outputVAT = outputVAT',
          inputVAT = inputVAT',
          netVATPayable = netVATPayable',
          excessCredit = excessCredit',
          invoiceCount = \<lparr> count_output = length outputInvoices,
                           count_input = length inputInvoices,
                           count_total = length periodInvoices \<rparr>,
          summary = summary2 \<rparr>)"

text \<open>
  \<^verbatim>\<open>Partial<VATInvoice>\<close>: every field may be absent. A string field is falsy when
  it is absent or empty, a number field when it is absent or zero.
\<close>

record PartialVATInvoice =
  invoice_id_opt :: "string option"
  invoiceNumber_opt :: "string option"
  invoiceDate_opt :: "string option"
  customerName_opt :: "string option"
  customerTIN_opt :: "string option"
  grossAmount_opt :: "real option"
  vatRate_opt :: "real option"
  vatAmount_opt :: "real option"
  totalAmount_opt :: "real option"
  invoiceType_opt :: "string option"
  invoice_isBasicItem_opt :: "bool option"
  lineItems_opt :: "VATLineItem list option"

definition falsy_string :: "string option \<Rightarrow> bool" where
  "falsy_string s = (case s of None \<Rightarrow> True | Some t \<Rightarrow> t = [])"

definition falsy_number :: "real option \<Rightarrow> bool" where
  "falsy_number x = (case x of None \<Rightarrow> True | Some v \<Rightarrow> v = 0)"

record ValidationResult =
  valid :: bool
  errors :: "string list"

text \<open>\<^verbatim>\<open>validateVATInvoice(invoice)\<close>; the error list grows by appending.\<close>

definition validateVATInvoice :: "Host \<Rightarrow> PartialVATInvoice \<Rightarrow> ValidationResult" where
  "validateVATInvoice h invoice =
    (let errors1 =
           (if falsy_string (invoiceNumber_opt invoice)
            then [''Invoice number is required''] else []);
         errors2 = errors1 @
           (if falsy_string (invoiceDate_opt invoice)
            then [''Invoice date is required'']
            else
              (let date = new_Date h (case invoiceDate_opt invoice of Some s \<Rightarrow> s | None \<Rightarrow> [])
               in if getTime date = None then [''Invalid invoice date format''] else []));
         errors3 = errors2 @
           (if falsy_string (customerName_opt invoice)
            then [''Customer name is required''] else []);
         errors4 = errors3 @
           (if falsy_number (grossAmount_opt invoice)
               \<or> (case grossAmount_opt invoice of Some g \<Rightarrow> g < 0 | None \<Rightarrow> False)
            then [''Valid gross amount is required''] else []);
         errors5 = errors4 @
           (if falsy_string (invoiceType_opt invoice)
               \<or> (case invoiceType_opt invoice of
                     Some t \<Rightarrow> \<not> List.member [''OUTPUT'', ''INPUT''] t | None \<Rightarrow> False)
            then [''Invoice type must be OUTPUT or INPUT''] else []);
         errors6 = errors5 @
           (if \<not> falsy_number (grossAmount_opt invoice) \<and> vatRate_opt invoice \<noteq> None
            then
              (let expectedVAT =
                     (case grossAmount_opt invoice of Some g \<Rightarrow> g | None \<Rightarrow> 0)
                       * (case vatRate_opt invoice of Some r \<Rightarrow> r | None \<Rightarrow> 0);
                   tolerance = 0.01
               in if \<bar>(case vatAmount_opt invoice of Some v \<Rightarrow> v | None \<Rightarrow> 0) - expectedVAT\<bar>
                       > tolerance
                  then [''VAT amount does not match gross amount '' @ sym_times @ '' VAT rate'']
                  else [])
            else [])
     in \<lparr> valid = (length errors6 = 0), errors = errors6 \<rparr>)"

section \<open>The period aggregation over binary64 numbers\<close>

text \<open>
  A JavaScript \<^verbatim>\<open>number\<close> is an IEEE 754 binary64 value, and \<^verbatim>\<open>+\<close> and \<^verbatim>\<open>-\<close> return
  the exact result rounded to the nearest such value, ties to the even significand.
  What the cumulative aggregation does with the credit it carries, and whether a
  position balances, depends on that rounding. So the functions concerned are
  embedded here with every \<^verbatim>\<open>+\<close> and \<^verbatim>\<open>-\<close> of the source rounded: a number is still a
  \<^typ>\<open>real\<close>, the value it denotes, and only results that stay finite are covered
  (a magnitude of \<open>2\<^sup>1\<^sup>0\<^sup>2\<^sup>4\<close> or more becomes \<^verbatim>\<open>Infinity\<close> in the source).
\<close>

text \<open>The nearest integer, ties to even.\<close>

definition round_half_even :: "real \<Rightarrow> int" where
  "round_half_even x =
    (let n = \<lfloor>x\<rfloor>; r = x - of_int n
     in if r < 1 / 2 then n
        else if 1 / 2 < r then n + 1
        else if even n then n else n + 1)"

text \<open>
  The binary exponent of a positive \<open>x\<close>: the \<open>e\<close> with \<open>2\<^sup>e \<le> x < 2\<^sup>e\<^sup>+\<^sup>1\<close>, found by
  halving or doubling \<open>x\<close> until it lies in \<open>[1, 2)\<close>. The fuel 2200 is more than the
  exponent range of binary64 needs.
\<close>

fun binade :: "nat \<Rightarrow> real \<Rightarrow> int \<Rightarrow> int" where
  "binade 0 x e = e"
| "binade (Suc fuel) x e =
    (if 2 \<le> x then binade fuel (x / 2) (e + 1)
     else if x < 1 then binade fuel (x * 2) (e - 1)
     else e)"

text \<open>Below \<open>2\<^sup>-\<^sup>1\<^sup>0\<^sup>2\<^sup>2\<close> the numbers are subnormal and keep the exponent \<open>-1022\<close>.\<close>

definition double_exponent :: "real \<Rightarrow> int" where
  "double_exponent x = max (binade 2200 \<bar>x\<bar> 0) (- 1022)"

text \<open>
  Rounding to binary64: with 53 significant bits, the numbers of exponent \<open>e\<close> are the
  multiples of \<open>2\<^sup>e\<^sup>-\<^sup>5\<^sup>2\<close>.
\<close>

definition round_double :: "real \<Rightarrow> real" where
  "round_double x =
    (if x = 0 then 0
     else (let q = 2 powi (double_exponent x - 52)
           in of_int (round_half_even (x / q)) * q))"











section \<open>A host for the concrete instances\<close>

text \<open>
  The instances below run on this host: UTC, with \<^verbatim>\<open>Date.parse\<close> known on a few ISO
  dates (day number since 1970-01-01 times the milliseconds of a day) and the
  calendar year known between 2024 and 2030. Its two formatting functions are
  stand-ins (the integer part of the amount, the day number of the date): no
  property below depends on the text they return.
\<close>

definition ms_per_day :: int where
  "ms_per_day = 86400000"

definition example_host :: Host where
  "example_host =
    \<lparr> Date_parse = map_of
        [(''2024-06-15'', 19889 * ms_per_day),
         (''2025-05-01'', 20209 * ms_per_day),
         (''2025-05-15'', 20223 * ms_per_day),
         (''2025-05-31'', 20239 * ms_per_day),
         (''2025-06-01'', 20240 * ms_per_day),
         (''2025-06-15'', 20254 * ms_per_day),
         (''2025-06-30'', 20269 * ms_per_day),
         (''2025-07-01'', 20270 * ms_per_day),
         (''2027-03-01'', 20878 * ms_per_day),
         (''2030-01-01'', 21915 * ms_per_day)],
      YearFromTime = (\<lambda>t.
         if t < 20089 * ms_per_day then 2024
         else if t < 20454 * ms_per_day then 2025
         else if t < 20819 * ms_per_day then 2026
         else if t < 21184 * ms_per_day then 2027
         else if t < 21550 * ms_per_day then 2028
         else if t < 21915 * ms_per_day then 2029
         else 2030),
      Number_toLocaleString = (\<lambda>x. string_of_nat (nat \<lfloor>x\<rfloor>)),
      Date_toLocaleDateString = (\<lambda>t.
         case t of None \<Rightarrow> ''Invalid Date''
         | Some ms \<Rightarrow> string_of_nat (nat (ms div ms_per_day))) \<rparr>"

text \<open>The line items of the instances: the example of the source comment, and the
  same staple item with the flag false and absent.\<close>

definition example_items :: "VATLineItem list" where
  "example_items =
     [\<lparr> description = ''Laptop'', quantity = 1, unitPrice = 500000, isBasicItem = None \<rparr>,
      \<lparr> description = ''Rice 50kg'', quantity = 2, unitPrice = 50000, isBasicItem = Some True \<rparr>,
      \<lparr> description = ''Rice 50kg'', quantity = 2, unitPrice = 50000, isBasicItem = Some False \<rparr>,
      \<lparr> description = ''Rice 50kg'', quantity = 2, unitPrice = 50000, isBasicItem = None \<rparr>]"

text \<open>Invoices, periods and inputs of the instances.\<close>

definition mkInvoice :: "string \<Rightarrow> string \<Rightarrow> string \<Rightarrow> real \<Rightarrow> VATInvoice" where
  "mkInvoice number date type amount =
     \<lparr> invoice_id = None, invoiceNumber = number, invoiceDate = date,
       customerName = ''Customer Ltd'', customerTIN = None,
       grossAmount = amount * 10, vatRate = 0.1, vatAmount = amount,
       totalAmount = amount * 11, invoiceType = type,
       invoice_isBasicItem = None, lineItems = None \<rparr>"

definition example_invoices :: "VATInvoice list" where
  "example_invoices =
     [mkInvoice ''A'' ''2025-05-31'' ''OUTPUT'' 7,
      mkInvoice ''B'' ''2025-06-01'' ''OUTPUT'' 1000,
      mkInvoice ''C'' ''2025-06-15'' ''INPUT'' 300,
      mkInvoice ''D'' ''2025-06-30'' ''OUTPUT'' 500,
      mkInvoice ''E'' ''2025-07-01'' ''INPUT'' 9,
      mkInvoice ''F'' ''not a date'' ''INPUT'' 11]"



definition example_standard_input :: ClassificationInput where
  "example_standard_input =
     \<lparr> turnover = 60000000, fixedAssets = 0, isProfessionalServices = False,
       industryCode = None \<rparr>"

definition example_zero_gross_invoice :: PartialVATInvoice where
  "example_zero_gross_invoice =
     \<lparr> invoice_id_opt = None,
       invoiceNumber_opt = Some ''INV-001'',
       invoiceDate_opt = Some ''2025-06-01'',
       customerName_opt = Some ''Customer Ltd'',
       customerTIN_opt = None,
       grossAmount_opt = Some 0,
       vatRate_opt = Some 0.1,
       vatAmount_opt = Some 0,
       totalAmount_opt = Some 0,
       invoiceType_opt = Some ''OUTPUT'',
       invoice_isBasicItem_opt = None,
       lineItems_opt = Some [] \<rparr>"




section \<open>Properties of the entity classifier\<close>

lemmas classification_consts =
  TURNOVER_THRESHOLD_def ASSETS_THRESHOLD_def CIT_2025_def CIT_2026_ONWARDS_def
  DEV_LEVY_2025_2026_def DEV_LEVY_2027_2029_def DEV_LEVY_2030_ONWARDS_def

text \<open>
  C1. For every input with non-negative turnover and fixed assets, \<open>classifyEntity\<close>
  returns a result; its classification is SMALL if and only if turnover is at most
  50,000,000, fixed assets are at most 250,000,000 (both inclusive) and the business
  is not a professional-services business; and \<open>citExempt\<close> is true and
  \<open>devLevyApplicable\<close> is false exactly when the classification is SMALL (false and
  true when it is STANDARD).
\<close>

theorem classifyEntity_small_iff:
  assumes "0 \<le> turnover input" and "0 \<le> fixedAssets input"
  shows "\<exists>r. classifyEntity h input = Inr r
           \<and> (classification r = SMALL \<longleftrightarrow>
                turnover input \<le> 50000000 \<and> fixedAssets input \<le> 250000000
                \<and> \<not> isProfessionalServices input)
           \<and> (classification r = SMALL \<longrightarrow> citExempt r \<and> \<not> devLevyApplicable r)
           \<and> (classification r = STANDARD \<longrightarrow> \<not> citExempt r \<and> devLevyApplicable r)
           \<and> (citExempt r \<and> \<not> devLevyApplicable r \<longrightarrow> classification r = SMALL)"
  using assms
  by (simp add: classifyEntity_def buildStandardResult_def Let_def classification_consts)

text \<open>The boundary input: turnover and fixed assets exactly at their thresholds.\<close>

theorem classifyEntity_small_iff_witness:
  "(\<exists>r. classifyEntity example_host \<lparr> turnover = 50000000, fixedAssets = 250000000,
                      isProfessionalServices = False, industryCode = None \<rparr> = Inr r
          \<and> classification r = SMALL \<and> citExempt r \<and> \<not> devLevyApplicable r)"
  using classifyEntity_small_iff [of "\<lparr> turnover = 50000000, fixedAssets = 250000000,
                      isProfessionalServices = False, industryCode = None \<rparr>" example_host]
  by auto

text \<open>
  Whatever the input, a STANDARD result carries the two constants
  \<open>CIT_2026_ONWARDS\<close> and \<open>DEV_LEVY_2025_2026\<close>: no year enters \<open>classifyEntity\<close>.
\<close>

lemma classifyEntity_standard_rates:
  "classifyEntity h input = Inr r \<Longrightarrow> classification r = STANDARD \<Longrightarrow>
     citRate (taxImplications r) = 0.25 \<and> devLevyRate (taxImplications r) = 0.04"
  by (auto simp add: classifyEntity_def buildStandardResult_def Let_def classification_consts
        split: if_splits)

text \<open>
  C7. The claim: for every input classified STANDARD, \<open>citRate\<close> and \<open>devLevyRate\<close> are
  the values of the rate schedule for the evaluation year (CIT 27.5% in 2025 and 25%
  from 2026; Development Levy 4% in 2025-2026, 3% in 2027-2029, 2% from 2030). The
  code at an input with turnover 60,000,000: it is classified STANDARD with
  \<open>citRate\<close> 0.25 and \<open>devLevyRate\<close> 0.04 in whatever year it runs, while the schedule
  functions of the same module give 0.275 for 2025, 0.03 for 2027 and 0.02 for 2030.
\<close>

theorem classifyEntity_standard_rates_fixed:
  "(case classifyEntity example_host example_standard_input of
      Inl e \<Rightarrow> False
    | Inr r \<Rightarrow> classification r = STANDARD
              \<and> citRate (taxImplications r) = 0.25
              \<and> devLevyRate (taxImplications r) = 0.04)
   \<and> getCITRate 2025 = 0.275
   \<and> getDevelopmentLevyRate 2027 = 0.03
   \<and> getDevelopmentLevyRate 2030 = 0.02"
  by (simp add: classifyEntity_def buildStandardResult_def example_standard_input_def Let_def
        getCITRate_def getDevelopmentLevyRate_def classification_consts)

section \<open>Properties of the VAT rate\<close>

lemma getVATRate_year:
  "getVATRate h d =
    (case getFullYear h d of
       None \<Rightarrow> 0.15
     | Some y \<Rightarrow> if y = 2025 then 0.1 else if 2026 \<le> y \<and> y \<le> 2029 then 0.125 else 0.15)"
  by (simp add: getVATRate_def Let_def STANDARD_2025_def STANDARD_2026_2029_def STANDARD_2030_def
           split: option.splits)

lemma getVATRate_nonzero: "getVATRate h d \<noteq> 0"
  by (simp add: getVATRate_year split: option.splits)

lemma example_parse [simp]:
  "Date_parse example_host ''2024-06-15'' = Some (19889 * 86400000)"
  "Date_parse example_host ''2025-05-01'' = Some (20209 * 86400000)"
  "Date_parse example_host ''2025-05-15'' = Some (20223 * 86400000)"
  "Date_parse example_host ''2025-05-31'' = Some (20239 * 86400000)"
  "Date_parse example_host ''2025-06-01'' = Some (20240 * 86400000)"
  "Date_parse example_host ''2025-06-15'' = Some (20254 * 86400000)"
  "Date_parse example_host ''2025-06-30'' = Some (20269 * 86400000)"
  "Date_parse example_host ''2025-07-01'' = Some (20270 * 86400000)"
  "Date_parse example_host ''2027-03-01'' = Some (20878 * 86400000)"
  "Date_parse example_host ''2030-01-01'' = Some (21915 * 86400000)"
  "Date_parse example_host ''not a date'' = None"
  by (simp_all add: example_host_def ms_per_day_def)

lemma example_year:
  "getFullYear example_host (new_Date example_host ''2025-06-01'') = Some 2025"
  "getFullYear example_host (new_Date example_host ''2027-03-01'') = Some 2027"
  "getFullYear example_host (new_Date example_host ''2030-01-01'') = Some 2030"
  "getFullYear example_host (new_Date example_host ''2024-06-15'') = Some 2024"
  by (simp_all add: getFullYear_def new_Date_def, simp_all add: example_host_def ms_per_day_def)

lemma example_rate_2025:
  "getVATRate example_host (new_Date example_host ''2025-06-01'') = 0.1"
  by (simp add: getVATRate_year example_year)

text \<open>
  C6. For every date with a calendar year \<open>y\<close>, \<open>getVATRate\<close> returns 0.10 when \<open>y\<close> is
  2025, 0.125 when \<open>y\<close> is between 2026 and 2029 inclusive, and 0.15 when \<open>y\<close> is 2030
  or later; and any other date with the same calendar year, on any host, gets the same
  rate.
\<close>

theorem getVATRate_schedule:
  assumes "getFullYear h d = Some y"
  shows "(y = 2025 \<longrightarrow> getVATRate h d = 0.1)
       \<and> (2026 \<le> y \<and> y \<le> 2029 \<longrightarrow> getVATRate h d = 0.125)
       \<and> (2030 \<le> y \<longrightarrow> getVATRate h d = 0.15)
       \<and> (\<forall>h' d'. getFullYear h' d' = Some y \<longrightarrow> getVATRate h' d' = getVATRate h d)"
  using assms by (simp add: getVATRate_year)

text \<open>One date in each of the three ranges.\<close>

theorem getVATRate_schedule_witness:
  "getVATRate example_host (new_Date example_host ''2025-06-01'') = 0.1
   \<and> getVATRate example_host (new_Date example_host ''2027-03-01'') = 0.125
   \<and> getVATRate example_host (new_Date example_host ''2030-01-01'') = 0.15"
  using getVATRate_schedule [OF example_year(1)] getVATRate_schedule [OF example_year(2)]
        getVATRate_schedule [OF example_year(3)]
  by simp

text \<open>
  C10. For every date whose calendar year is earlier than 2025, \<open>getVATRate\<close> returns
  0.15, the rate of 2030 and beyond: such a date never gets 0.10 or 0.125.
\<close>

theorem getVATRate_before_2025:
  assumes "getFullYear h d = Some y" and "y < 2025"
  shows "getVATRate h d = 0.15 \<and> getVATRate h d \<noteq> 0.1 \<and> getVATRate h d \<noteq> 0.125"
  using assms by (simp add: getVATRate_year)

text \<open>A date in 2024.\<close>

theorem getVATRate_before_2025_witness:
  "getVATRate example_host (new_Date example_host ''2024-06-15'') = 0.15"
  using getVATRate_before_2025 [OF example_year(4)] by simp

section \<open>Properties of the invoice calculation\<close>

lemma calculateLineItem_fields [simp]:
  "lineTotal (calculateLineItem r i) = quantity i * unitPrice i"
  "vat (calculateLineItem r i) = quantity i * unitPrice i * applicableRate r i"
  "total' (calculateLineItem r i)
     = quantity i * unitPrice i + quantity i * unitPrice i * applicableRate r i"
  "description (calculateLineItem r i) = description i"
  "quantity (calculateLineItem r i) = quantity i"
  "unitPrice (calculateLineItem r i) = unitPrice i"
  "isBasicItem (calculateLineItem r i) = isBasicItem i"
  by (simp_all add: calculateLineItem_def Let_def)

text \<open>The running totals after the \<open>map\<close>: what was there before plus the sums.\<close>

lemma mapLineItems_eq:
  "mapLineItems r items s v =
     (map (calculateLineItem r) items,
      s + sum_list (map (\<lambda>i. quantity i * unitPrice i) items),
      v + sum_list (map (\<lambda>i. quantity i * unitPrice i * applicableRate r i) items))"
  by (induction items arbitrary: s v) (simp_all add: Let_def)

lemma calculateInvoiceVAT_eq:
  "calculateInvoiceVAT h n ds c items =
     \<lparr> calc_invoiceNumber = n,
       calc_invoiceDate = ds,
       subtotal = sum_list (map (\<lambda>i. quantity i * unitPrice i) items),
       calc_vatRate = getVATRate h (new_Date h ds),
       calc_vatAmount = sum_list (map (\<lambda>i. quantity i * unitPrice i
                           * applicableRate (getVATRate h (new_Date h ds)) i) items),
       calc_totalAmount = sum_list (map (\<lambda>i. quantity i * unitPrice i) items)
                          + sum_list (map (\<lambda>i. quantity i * unitPrice i
                           * applicableRate (getVATRate h (new_Date h ds)) i) items),
       calc_lineItems = map (calculateLineItem (getVATRate h (new_Date h ds))) items \<rparr>"
  by (simp add: calculateInvoiceVAT_def mapLineItems_eq Let_def)

text \<open>
  C4. For every list of line items and every invoice date, each line of the breakdown
  has \<open>lineTotal = quantity * unitPrice\<close>, and the result has \<open>subtotal\<close> the sum of the
  \<open>lineTotal\<close>s, \<open>vatAmount\<close> the sum of the per-line \<open>vat\<close>s, and
  \<open>totalAmount = subtotal + vatAmount\<close>.
\<close>

theorem calculateInvoiceVAT_totals:
  "map lineTotal (calc_lineItems (calculateInvoiceVAT h n ds c items))
     = map (\<lambda>i. quantity i * unitPrice i) items
   \<and> subtotal (calculateInvoiceVAT h n ds c items)
     = sum_list (map lineTotal (calc_lineItems (calculateInvoiceVAT h n ds c items)))
   \<and> calc_vatAmount (calculateInvoiceVAT h n ds c items)
     = sum_list (map vat (calc_lineItems (calculateInvoiceVAT h n ds c items)))
   \<and> calc_totalAmount (calculateInvoiceVAT h n ds c items)
     = subtotal (calculateInvoiceVAT h n ds c items)
       + calc_vatAmount (calculateInvoiceVAT h n ds c items)"
  by (simp add: calculateInvoiceVAT_eq comp_def)

text \<open>
  The example of the source comment: a laptop at 500,000 and two bags of rice at 50,000
  flagged basic, dated 2025-06-01.
\<close>

theorem calculateInvoiceVAT_totals_witness:
  "subtotal (calculateInvoiceVAT example_host ''INV-001'' ''2025-06-01'' ''Customer Ltd''
               (take 2 example_items)) = 600000
   \<and> calc_vatAmount (calculateInvoiceVAT example_host ''INV-001'' ''2025-06-01'' ''Customer Ltd''
               (take 2 example_items)) = 50000
   \<and> calc_totalAmount (calculateInvoiceVAT example_host ''INV-001'' ''2025-06-01'' ''Customer Ltd''
               (take 2 example_items)) = 650000"
  using calculateInvoiceVAT_totals [of example_host "''INV-001''" "''2025-06-01''"
          "''Customer Ltd''" "take 2 example_items"]
  by (simp add: example_items_def calculateInvoiceVAT_eq example_rate_2025 applicableRate_def
        BASIC_ITEMS_def)

text \<open>
  C5. In \<open>calculateInvoiceVAT\<close> the rate applied to a line is 0 if and only if its
  \<open>isBasicItem\<close> field is \<open>true\<close>, and is \<open>getVATRate\<close> of the invoice date otherwise
  (field \<open>false\<close> or absent). So a line flagged \<open>true\<close> has \<open>vat = 0\<close> whatever the date,
  every other line has \<open>vat = quantity * unitPrice * getVATRate(date)\<close>, and the
  per-line VAT does not change when the descriptions are replaced by any others: the
  description is never consulted.
\<close>

theorem calculateInvoiceVAT_rate:
  "(applicableRate (getVATRate h (new_Date h ds)) item = 0 \<longleftrightarrow> isBasicItem item = Some True)
   \<and> (isBasicItem item \<noteq> Some True \<longrightarrow>
        applicableRate (getVATRate h (new_Date h ds)) item = getVATRate h (new_Date h ds))
   \<and> map vat (calc_lineItems (calculateInvoiceVAT h n ds c items))
       = map (\<lambda>i. if isBasicItem i = Some True then 0
                   else quantity i * unitPrice i * getVATRate h (new_Date h ds)) items
   \<and> map vat (calc_lineItems
        (calculateInvoiceVAT h n ds c (map (\<lambda>i. i \<lparr> description := f i \<rparr>) items)))
       = map vat (calc_lineItems (calculateInvoiceVAT h n ds c items))"
  by (simp add: calculateInvoiceVAT_eq comp_def applicableRate_def BASIC_ITEMS_def
        getVATRate_nonzero)

text \<open>
  Rice flagged \<open>true\<close> pays nothing; rice flagged \<open>false\<close> and rice with no flag pay the
  10% of 2025.
\<close>

theorem calculateInvoiceVAT_rate_witness:
  "map vat (calc_lineItems
      (calculateInvoiceVAT example_host ''INV-001'' ''2025-06-01'' ''Customer Ltd'' example_items))
     = [50000, 0, 10000, 10000]"
  using calculateInvoiceVAT_rate [of example_host "''2025-06-01''" "hd example_items"
          "''INV-001''" "''Customer Ltd''" example_items description]
  by (simp add: example_items_def example_rate_2025)

section \<open>Properties of the period position\<close>

lemma foldl_add_sum_list:
  "foldl (\<lambda>s x. s + f x) (a::real) xs = a + sum_list (map f xs)"
  by (induction xs arbitrary: a) simp_all

lemma inPeriod_iff:
  "inPeriod h ps pe i =
    (case (Date_parse h ps, Date_parse h (invoiceDate i), Date_parse h pe) of
       (Some s, Some d, Some e) \<Rightarrow> s \<le> d \<and> d \<le> e
     | _ \<Rightarrow> False)"
  by (simp add: inPeriod_def date_ge_def date_le_def new_Date_def Let_def split: option.splits)

lemma computeVATPosition_fields:
  "outputVAT (computeVATPosition h invoices ps pe)
     = sum_list (map vatAmount (filter (\<lambda>i. invoiceType i = ''OUTPUT'')
                  (filter (inPeriod h ps pe) invoices)))"
  "inputVAT (computeVATPosition h invoices ps pe)
     = sum_list (map vatAmount (filter (\<lambda>i. invoiceType i = ''INPUT'')
                  (filter (inPeriod h ps pe) invoices)))"
  "netVATPayable (computeVATPosition h invoices ps pe)
     = max 0 (outputVAT (computeVATPosition h invoices ps pe)
              - inputVAT (computeVATPosition h invoices ps pe))"
  "excessCredit (computeVATPosition h invoices ps pe)
     = max 0 (inputVAT (computeVATPosition h invoices ps pe)
              - outputVAT (computeVATPosition h invoices ps pe))"
  "count_total (invoiceCount (computeVATPosition h invoices ps pe))
     = length (filter (inPeriod h ps pe) invoices)"
  by (simp_all add: computeVATPosition_def Let_def foldl_add_sum_list)

text \<open>
  C2. For every invoice list and period boundaries, \<open>computeVATPosition\<close> keeps exactly
  the invoices whose date, the period start and the period end all parse and satisfy
  \<open>periodStart \<le> invoiceDate \<le> periodEnd\<close> (inclusive at both ends); \<open>outputVAT\<close> is the
  sum of \<open>vatAmount\<close> over the kept OUTPUT invoices and \<open>inputVAT\<close> the sum over the kept
  INPUT invoices; \<open>netVATPayable = max(0, outputVAT - inputVAT)\<close> and
  \<open>excessCredit = max(0, inputVAT - outputVAT)\<close>; and the two are never both non-zero.
\<close>

theorem computeVATPosition_spec:
  "filter (inPeriod h ps pe) invoices
     = filter (\<lambda>i. case (Date_parse h ps, Date_parse h (invoiceDate i), Date_parse h pe) of
                     (Some s, Some d, Some e) \<Rightarrow> s \<le> d \<and> d \<le> e
                   | _ \<Rightarrow> False) invoices
   \<and> count_total (invoiceCount (computeVATPosition h invoices ps pe))
       = length (filter (inPeriod h ps pe) invoices)
   \<and> outputVAT (computeVATPosition h invoices ps pe)
       = sum_list (map vatAmount (filter (\<lambda>i. invoiceType i = ''OUTPUT'')
                    (filter (inPeriod h ps pe) invoices)))
   \<and> inputVAT (computeVATPosition h invoices ps pe)
       = sum_list (map vatAmount (filter (\<lambda>i. invoiceType i = ''INPUT'')
                    (filter (inPeriod h ps pe) invoices)))
   \<and> netVATPayable (computeVATPosition h invoices ps pe)
       = max 0 (outputVAT (computeVATPosition h invoices ps pe)
                - inputVAT (computeVATPosition h invoices ps pe))
   \<and> excessCredit (computeVATPosition h invoices ps pe)
       = max 0 (inputVAT (computeVATPosition h invoices ps pe)
                - outputVAT (computeVATPosition h invoices ps pe))
   \<and> (netVATPayable (computeVATPosition h invoices ps pe) = 0
       \<or> excessCredit (computeVATPosition h invoices ps pe) = 0)"
proof -
  have kept: "filter (inPeriod h ps pe) invoices
     = filter (\<lambda>i. case (Date_parse h ps, Date_parse h (invoiceDate i), Date_parse h pe) of
                     (Some s, Some d, Some e) \<Rightarrow> s \<le> d \<and> d \<le> e
                   | _ \<Rightarrow> False) invoices"
    by (rule filter_cong) (simp_all add: inPeriod_iff)
  have both: "netVATPayable (computeVATPosition h invoices ps pe) = 0
       \<or> excessCredit (computeVATPosition h invoices ps pe) = 0"
    unfolding computeVATPosition_fields(3,4) by (simp add: max_def)
  show ?thesis
    using kept both computeVATPosition_fields [of h invoices ps pe] by blast
qed

lemma example_kept:
  "filter (inPeriod example_host ''2025-06-01'' ''2025-06-30'') example_invoices
     = [mkInvoice ''B'' ''2025-06-01'' ''OUTPUT'' 1000,
        mkInvoice ''C'' ''2025-06-15'' ''INPUT'' 300,
        mkInvoice ''D'' ''2025-06-30'' ''OUTPUT'' 500]"
  by (simp add: example_invoices_def inPeriod_iff mkInvoice_def)

text \<open>
  June 2025 over six invoices: one on the day before the start, one on the start, one
  inside, one on the end, one on the day after the end, one with an unparseable date.
  The three in the middle are kept.
\<close>

theorem computeVATPosition_spec_witness:
  "count_total (invoiceCount
      (computeVATPosition example_host example_invoices ''2025-06-01'' ''2025-06-30'')) = 3
   \<and> outputVAT (computeVATPosition example_host example_invoices ''2025-06-01'' ''2025-06-30'')
       = 1500
   \<and> inputVAT (computeVATPosition example_host example_invoices ''2025-06-01'' ''2025-06-30'')
       = 300
   \<and> netVATPayable (computeVATPosition example_host example_invoices ''2025-06-01'' ''2025-06-30'')
       = 1200
   \<and> excessCredit (computeVATPosition example_host example_invoices ''2025-06-01'' ''2025-06-30'')
       = 0"
  using computeVATPosition_spec [of example_host "''2025-06-01''" "''2025-06-30''" example_invoices]
  by (simp add: example_kept) (simp add: mkInvoice_def)

section \<open>Properties of binary64 rounding\<close>



lemma round_double_0 [simp]: "round_double 0 = 0"
  by (simp add: round_double_def)







section \<open>Properties of the cumulative aggregation\<close>

















section \<open>Properties of the accounting identity\<close>










section \<open>Properties of the invoice validator\<close>

text \<open>
  C9. The claim: \<open>validateVATInvoice\<close> returns \<open>valid = true\<close> with no error if and only
  if the required fields are present, the date parses, \<open>grossAmount\<close> is present and at
  least 0 (zero included), the type is OUTPUT or INPUT and the VAT amount matches
  within 0.01. The code at an invoice that meets all of it with \<open>grossAmount = 0\<close>: it
  is rejected with the error for the gross amount.
\<close>

theorem validateVATInvoice_zero_gross_rejected:
  "validateVATInvoice example_host example_zero_gross_invoice
     = \<lparr> valid = False, errors = [''Valid gross amount is required''] \<rparr>"
  by (simp add: validateVATInvoice_def example_zero_gross_invoice_def Let_def
        falsy_string_def falsy_number_def new_Date_def)

end
